theory Spec2Isabelle
  imports Complex_Main "HOL-Library.Sublist"
begin

section \<open>Python values and results\<close>

text \<open>
  The pipeline of \<^verbatim>\<open>agents.py\<close> is glue around three external collaborators: the
  process environment, the LinkUp search client and the crewAI framework with its
  language model.  Every call that can raise is a value of \<open>exn + 'a\<close>; the handlers
  of the source only ever look at \<open>str(e)\<close>, so an exception is its message.  What
  \<^verbatim>\<open>except Exception\<close> catches is an instance of \<^verbatim>\<open>Exception\<close>; interpreter signals
  below \<^verbatim>\<open>BaseException\<close> only (a keyboard interrupt, a system exit) are not failures
  of a step and are not values of this type.
\<close>

datatype exn = Exception (message: string)

subsection \<open>The objects of agents.py\<close>

text \<open>\<^verbatim>\<open>LinkUpSearchTool\<close>: the one tool class of the module, with its class attributes.\<close>

datatype tool = LinkUpSearchTool

definition tool_name :: "tool \<Rightarrow> string" where
  "tool_name t = (case t of LinkUpSearchTool \<Rightarrow> ''LinkUp Search'')"

definition tool_description :: "tool \<Rightarrow> string" where
  "tool_description t = (case t of LinkUpSearchTool \<Rightarrow>
     ''Search the web for information using LinkUp and return comprehensive results'')"

text \<open>The keyword arguments of \<^verbatim>\<open>LLM(...)\<close>, \<^verbatim>\<open>Agent(...)\<close>, \<^verbatim>\<open>Task(...)\<close> and \<^verbatim>\<open>Crew(...)\<close>.
  An argument the source leaves out (\<^verbatim>\<open>tools\<close> of an agent or task, \<^verbatim>\<open>context\<close> of a
  task) is the empty list.\<close>

record llm =
  llm_model :: string
  llm_verbose :: bool
  llm_temperature :: real
  llm_api_key :: "string option"

record agent =
  agent_role :: string
  agent_goal :: string
  agent_backstory :: string
  agent_verbose :: bool
  allow_delegation :: bool
  agent_tools :: "tool list"
  agent_llm :: llm

datatype task = Task
  (description: string)
  (task_agent: agent)
  (expected_output: string)
  (task_tools: "tool list")
  (task_context: "task list")

datatype process = sequential | hierarchical

record crew =
  crew_agents :: "agent list"
  crew_tasks :: "task list"
  crew_verbose :: bool
  crew_process :: process

record crew_output =
  raw :: string

section \<open>Effects\<close>

text \<open>
  The process state is the environment \<^verbatim>\<open>os.environ\<close> (as \<^verbatim>\<open>load_dotenv()\<close> left it
  at import, and as anything changed it since) and the trace of what has happened:
  every \<^verbatim>\<open>os.getenv\<close> call and the start and end of every task execution.
\<close>

datatype event =
    Getenv string
  | TaskStarted task "string list"
  | TaskFinished task string

record state =
  environ :: "string \<Rightarrow> string option"
  trace :: "event list"

type_synonym 'a py = "state \<Rightarrow> (exn + 'a) \<times> state"

definition py_return :: "'a \<Rightarrow> 'a py" where
  "py_return v s = (Inr v, s)"

definition py_raise :: "exn \<Rightarrow> 'a py" where
  "py_raise e s = (Inl e, s)"

definition py_bind :: "'a py \<Rightarrow> ('a \<Rightarrow> 'b py) \<Rightarrow> 'b py" where
  "py_bind m f s = (case m s of (Inl e, s') \<Rightarrow> (Inl e, s') | (Inr v, s') \<Rightarrow> f v s')"

text \<open>\<^verbatim>\<open>try: m  except Exception as e: h e\<close>\<close>

definition py_try :: "'a py \<Rightarrow> (exn \<Rightarrow> 'a py) \<Rightarrow> 'a py" where
  "py_try m h s = (case m s of (Inl e, s') \<Rightarrow> h e s' | (Inr v, s') \<Rightarrow> (Inr v, s'))"

text \<open>A call into an external library: it returns or raises, and leaves the state alone.\<close>

definition py_external :: "exn + 'a \<Rightarrow> 'a py" where
  "py_external r s = (r, s)"

text \<open>A constructor of an external class: the object with the given arguments, unless
  the class's validation raises.\<close>

definition construct :: "('a \<Rightarrow> exn option) \<Rightarrow> 'a \<Rightarrow> 'a py" where
  "construct validation x = py_external (case validation x of None \<Rightarrow> Inr x | Some e \<Rightarrow> Inl e)"

definition py_log :: "event \<Rightarrow> unit py" where
  "py_log ev s = (Inr (), s\<lparr>trace := trace s @ [ev]\<rparr>)"

definition os_getenv :: "string \<Rightarrow> string option py" where
  "os_getenv name s = (Inr (environ s name), s\<lparr>trace := trace s @ [Getenv name]\<rparr>)"

section \<open>The external collaborators\<close>

text \<open>
  Modelled from the spec: the loop in which crewAI lets a language model work on a task
  is not in this repository.  By the spec's sections 4.1 and 4.3 the model, as the
  framework sees it, answers with the task's output, or its call fails, or it asks for
  the search tool with \<open>(query, depth, output_type)\<close> and goes on from the string it
  gets back, as often as it likes.  Every such run ends: the model is a service that
  returns or fails.
\<close>

datatype agent_run =
    FinalAnswer string
  | LLMFailure exn
  | UseTool string string string "string \<Rightarrow> agent_run"

text \<open>
  Everything the program calls and does not define: the LinkUp client (its constructor
  with the API key, its search, and \<^verbatim>\<open>str\<close> of a response), the validation each
  constructor of the framework runs on its arguments, what the language model does for
  an agent on a task with the outputs of its context, and what the framework tells a
  model that asks for a tool it does not have.  The theorems hold for every such world.
\<close>

record ('c, 'r) world =
  LinkupClient_init :: "string option \<Rightarrow> exn + 'c"
  LinkupClient_search :: "'c \<Rightarrow> string \<Rightarrow> string \<Rightarrow> string \<Rightarrow> exn + 'r"
  response_str :: "'r \<Rightarrow> string"
  LinkUpSearchTool_init :: "tool \<Rightarrow> exn option"
  LLM_init :: "llm \<Rightarrow> exn option"
  Agent_init :: "agent \<Rightarrow> exn option"
  Task_init :: "task \<Rightarrow> exn option"
  Crew_init :: "crew \<Rightarrow> exn option"
  llm_run :: "agent \<Rightarrow> task \<Rightarrow> string list \<Rightarrow> agent_run"
  unavailable_tool_observation :: string

section \<open>agents.py\<close>

definition get_llm_client :: "('c, 'r) world \<Rightarrow> llm py" where
  "get_llm_client W =
     py_bind (os_getenv ''GEMINI_API_KEY'') (\<lambda>key.
     construct (LLM_init W)
       \<lparr>llm_model = ''gemini/gemini-2.5-flash'',
        llm_verbose = True,
        llm_temperature = 0.0,
        llm_api_key = key\<rparr>)"

text \<open>\<^verbatim>\<open>LinkUpSearchTool._run\<close>, with its three arguments given (a caller that leaves
  \<^verbatim>\<open>depth\<close> or \<^verbatim>\<open>output_type\<close> out passes \<open>standard\<close> and \<open>searchResults\<close>).\<close>

definition LinkUpSearchTool_run ::
    "('c, 'r) world \<Rightarrow> string \<Rightarrow> string \<Rightarrow> string \<Rightarrow> string py" where
  "LinkUpSearchTool_run W query depth output_type =
     py_try
       (py_bind (os_getenv ''LINKUP_API_KEY'') (\<lambda>key.
        py_bind (py_external (LinkupClient_init W key)) (\<lambda>linkup_client.
        py_bind (py_external (LinkupClient_search W linkup_client query depth output_type))
          (\<lambda>search_response.
        py_return (response_str W search_response)))))
       (\<lambda>e. py_return (''Error occurred while searching: '' @ message e))"

subsection \<open>The texts of create\_research\_crew\<close>

text \<open>Each string below is the source's string, one literal per literal of the source
  (Python joins adjacent literals).\<close>

definition web_searcher_goal :: string where
  "web_searcher_goal =
     ''Locate the most authoritative, up-to-date, and relevant information on the web to comprehensively address the research query. ''
   @ ''Ensure all findings are accompanied by accurate source links (urls) suitable for citation in a formal research report. ''
   @ ''Gather data, facts, and potential visuals (charts, diagrams, images) that could support the report's sections: Executive Summary, Key Findings, Visuals, Conclusion, and References.''"

definition web_searcher_backstory :: string where
  "web_searcher_backstory =
     ''A specialist in advanced web research, skilled at constructing precise queries and evaluating the credibility of sources. ''
   @ ''Responsible for assembling a robust set of resources and raw findings, with clear citations, to enable deep analysis and structured reporting. ''
   @ ''Passes all findings to the 'Research Analyst' for synthesis.''"

definition research_analyst_goal :: string where
  "research_analyst_goal =
     ''Output two sections in markdown format:\<newline>\<newline>## Research Report\<newline>Prepare structured notes for each section of the Research Report: Executive Summary, Key Findings, Visuals, Conclusion, and References.\<newline>\<newline>## Thinking Process Summary\<newline>For each key finding or section, explicitly explain which sources ([n]) contributed to each conclusion and how the information was combined, contrasted, or selected. Provide reasoning for each major point, mapping citations to synthesis decisions, and avoid general statements. This output will be passed to the technical_writer for final presentation.''"

definition research_analyst_backstory :: string where
  "research_analyst_backstory =
     ''An expert at critical analysis, fact-checking, and synthesis. Skilled in transforming unstructured data into actionable insights and structured outlines. ''
   @ ''Responsible for ensuring the accuracy and depth of findings, and for organizing content to facilitate clear, impactful reporting. ''
   @ ''Passes an organized, section-ready synthesis to the 'Technical Writer'.''"

definition technical_writer_goal :: string where
  "technical_writer_goal =
     ''Produce two outputs, each clearly separated by markdown headers, with the Research Report first and the Thinking Process Summary second:\<newline>\<newline>''
   @ ''## (1) Research Report\<newline>''
   @ ''A well-structured Research Report in markdown format, with clear section headers and citations/source links (urls). The report must include the following sections: ''
   @ ''1. Executive Summary (required): Brief overview of the research objective and outcome.\<newline>''
   @ ''2. Key Findings (optional): Concise insights with citations, formatted as numbered references (e.g., [1], [2], etc.), matching the numbers in the References section. Each citation should use a number that corresponds to a source in the References section.\<newline>''
   @ ''3. Visuals (optional): Only include this section if an actual visualization (such as an image, chart, diagram, or table) is generated and can be shown in the report. Do NOT include this section if only suggestions, descriptions, or hypothetical visuals are available. If no real visualization is produced, omit the Visuals section entirely.\<newline>''
   @ ''4. Conclusion (required): Summary of key takeaways and suggested next steps.\<newline>''
   @ ''5. References (required): A numbered list of all sources cited in the report. The numbering must correspond to the citation numbers used in the Key Findings section. Do NOT include 'Accessed [Current Date]' or any placeholder access date in the references; only include the source title, website, and URL.\<newline>''
   @ ''Ensure each section is clearly labeled and written in a professional, accessible style.\<newline>\<newline>''
   @ ''## (2) Thinking Process Summary\<newline>''
   @ ''Present the detailed Thinking Process Summary provided by the research_analyst, which for each key finding or section, explicitly explains which sources ([n]) contributed to each conclusion and how the information was combined, contrasted, or selected. The summary should provide reasoning for each major point, mapping citations to synthesis decisions, and avoid general statements. The technical_writer should not invent or reinterpret the reasoning, but simply present both outputs clearly and professionally.\<newline>''
   @ ''1. Executive Summary (required): Brief overview of the research objective and outcome.\<newline>''
   @ ''2. Key Findings (optional): Concise insights with citations, formatted as numbered references (e.g., [1], [2], etc.), matching the numbers in the References section. Each citation should use a number that corresponds to a source in the References section.\<newline>''
   @ ''3. Visuals (optional): Only include this section if an actual visualization (such as an image, chart, diagram, or table) is generated and can be shown in the report. Do NOT include this section if only suggestions, descriptions, or hypothetical visuals are available. If no real visualization is produced, omit the Visuals section entirely.\<newline>''
   @ ''4. Conclusion (required): Summary of key takeaways and suggested next steps.\<newline>''
   @ ''5. References (required): A numbered list of all sources cited in the report. The numbering must correspond to the citation numbers used in the Key Findings section. Do NOT include 'Accessed [Current Date]' or any placeholder access date in the references; only include the source title, website, and URL.\<newline>''
   @ ''Ensure each section is clearly labeled and written in a professional, accessible style.\<newline>''"

definition technical_writer_backstory :: string where
  "technical_writer_backstory =
     ''An expert at structuring and communicating complex research in a clear, engaging, and accessible way. ''
   @ ''Responsible for transforming the analyst's synthesis into a polished, comprehensive Research Report, with careful attention to structure, clarity, and citation.''"

definition search_task_expected_output :: string where
  "search_task_expected_output =
     ''Comprehensive raw search results, including sources (urls) and any relevant visuals.''"

definition analysis_task_description :: string where
  "analysis_task_description =
     ''Analyze the raw search results, extract key findings, and verify facts. ''
   @ ''Organize insights, suggest visuals, and compile a list of references. ''
   @ ''Prepare structured notes for each section of the Research Report: Executive Summary, Key Findings, Visuals, Conclusion, and References.''"

definition analysis_task_expected_output :: string where
  "analysis_task_expected_output =
     ''A section-ready synthesis with key findings, suggested visuals, and a comprehensive reference list, all with citations.''"

definition writing_task_description :: string where
  "writing_task_description =
     ''Write a well-structured Research Report in markdown format, based on the research analysis. ''
   @ ''The report must include the following sections: ''
   @ ''- Executive Summary (required): Brief overview of the research objective and outcome.\<newline>''
   @ ''- Key Findings (optional): Concise insights with citations if applicable.\<newline>''
   @ ''- Visuals (optional): Charts, diagrams, or images that support the findings.\<newline>''
   @ ''- Conclusion (required): Summary of key takeaways and suggested next steps.\<newline>''
   @ ''- References (required): List of sources used in the research.\<newline>''
   @ ''Ensure each section is clearly labeled and the writing is professional, clear, and accessible.''"

definition writing_task_expected_output :: string where
  "writing_task_expected_output =
     ''A markdown-formatted Research Report with all required sections, clear structure, and citations/source links (urls).''"

subsection \<open>The agents and tasks\<close>

definition web_searcher :: "tool \<Rightarrow> llm \<Rightarrow> agent" where
  "web_searcher linkup_search_tool client =
     \<lparr>agent_role = ''Web Searcher'',
      agent_goal = web_searcher_goal,
      agent_backstory = web_searcher_backstory,
      agent_verbose = True,
      allow_delegation = True,
      agent_tools = [linkup_search_tool],
      agent_llm = client\<rparr>"

definition research_analyst :: "llm \<Rightarrow> agent" where
  "research_analyst client =
     \<lparr>agent_role = ''Research Analyst'',
      agent_goal = research_analyst_goal,
      agent_backstory = research_analyst_backstory,
      agent_verbose = True,
      allow_delegation = True,
      agent_tools = [],
      agent_llm = client\<rparr>"

definition technical_writer :: "llm \<Rightarrow> agent" where
  "technical_writer client =
     \<lparr>agent_role = ''Technical Writer'',
      agent_goal = technical_writer_goal,
      agent_backstory = technical_writer_backstory,
      agent_verbose = True,
      allow_delegation = False,
      agent_tools = [],
      agent_llm = client\<rparr>"

definition search_task :: "string \<Rightarrow> agent \<Rightarrow> tool \<Rightarrow> task" where
  "search_task query searcher linkup_search_tool =
     Task
       (''Conduct an exhaustive web search for authoritative, up-to-date information about: ''
          @ query @ ''. ''
        @ ''Collect facts, data, and potential visuals (charts, diagrams, images) relevant to the research query. ''
        @ ''Ensure all findings are accompanied by accurate source links (urls) suitable for citation in a formal research report.'')
       searcher
       search_task_expected_output
       [linkup_search_tool]
       []"

definition analysis_task :: "agent \<Rightarrow> task \<Rightarrow> task" where
  "analysis_task analyst search =
     Task analysis_task_description analyst analysis_task_expected_output [] [search]"

definition writing_task :: "agent \<Rightarrow> task \<Rightarrow> task" where
  "writing_task writer analysis =
     Task writing_task_description writer writing_task_expected_output [] [analysis]"

definition create_research_crew :: "('c, 'r) world \<Rightarrow> string \<Rightarrow> crew py" where
  "create_research_crew W query =
     py_bind (construct (LinkUpSearchTool_init W) LinkUpSearchTool) (\<lambda>linkup_search_tool.
     py_bind (get_llm_client W) (\<lambda>client.
     py_bind (construct (Agent_init W) (web_searcher linkup_search_tool client)) (\<lambda>searcher.
     py_bind (construct (Agent_init W) (research_analyst client)) (\<lambda>analyst.
     py_bind (construct (Agent_init W) (technical_writer client)) (\<lambda>writer.
     py_bind (construct (Task_init W) (search_task query searcher linkup_search_tool)) (\<lambda>search.
     py_bind (construct (Task_init W) (analysis_task analyst search)) (\<lambda>analysis.
     py_bind (construct (Task_init W) (writing_task writer analysis)) (\<lambda>writing.
     construct (Crew_init W)
       \<lparr>crew_agents = [searcher, analyst, writer],
        crew_tasks = [search, analysis, writing],
        crew_verbose = True,
        crew_process = sequential\<rparr>))))))))"

subsection \<open>The orchestrator\<close>

text \<open>
  Modelled from the spec: \<^verbatim>\<open>Crew.kickoff\<close> is crewAI's, not this repository's.  The
  spec's section 4.3 gives it: the tasks run in the order of the crew's list, one at a
  time; a task's agent gets the raw outputs of the tasks of its \<^verbatim>\<open>context\<close> that
  have finished; a step that raises ends the run with that exception, with no partial
  result; the result's \<^verbatim>\<open>raw\<close> is the raw output of the last task.  Per section 4.1 a
  tool call hands the agent whatever string the tool returns, and section 4.3 counts a
  tool failure the tool does not catch as a failure of the step.  An agent may call a
  tool of its task or of its own; asking for one it does not have gets it the
  framework's refusal as the observation.  Only the sequential process is described.
\<close>

primrec run_agent :: "agent_run \<Rightarrow> ('c, 'r) world \<Rightarrow> tool list \<Rightarrow> string py" where
  "run_agent (FinalAnswer text) W tools = py_return text"
| "run_agent (LLMFailure e) W tools = py_raise e"
| "run_agent (UseTool query depth output_type continue) W tools =
     (if LinkUpSearchTool \<in> set tools
      then py_bind (LinkUpSearchTool_run W query depth output_type)
             (\<lambda>observation. run_agent (continue observation) W tools)
      else run_agent (continue (unavailable_tool_observation W)) W tools)"

definition context_outputs :: "(task \<times> string) list \<Rightarrow> task \<Rightarrow> string list" where
  "context_outputs outputs t = List.map_filter (map_of outputs) (task_context t)"

definition execute_task :: "('c, 'r) world \<Rightarrow> task \<Rightarrow> string list \<Rightarrow> string py" where
  "execute_task W t ctx =
     py_bind (py_log (TaskStarted t ctx)) (\<lambda>_.
     py_bind (run_agent (llm_run W (task_agent t) t ctx) W
                (task_tools t @ agent_tools (task_agent t))) (\<lambda>output.
     py_bind (py_log (TaskFinished t output)) (\<lambda>_.
     py_return output)))"

primrec execute_tasks ::
    "task list \<Rightarrow> ('c, 'r) world \<Rightarrow> (task \<times> string) list \<Rightarrow> (task \<times> string) list py" where
  "execute_tasks [] W outputs = py_return outputs"
| "execute_tasks (t # ts) W outputs =
     py_bind (execute_task W t (context_outputs outputs t)) (\<lambda>output.
     execute_tasks ts W (outputs @ [(t, output)]))"

definition Crew_kickoff :: "('c, 'r) world \<Rightarrow> crew \<Rightarrow> crew_output py" where
  "Crew_kickoff W c =
     (case crew_process c of
        sequential \<Rightarrow>
          py_bind (execute_tasks (crew_tasks c) W []) (\<lambda>outputs.
          py_return \<lparr>raw = (if outputs = [] then [] else snd (last outputs))\<rparr>)
      | hierarchical \<Rightarrow> py_raise (Exception ''hierarchical process''))"

subsection \<open>The query service\<close>

definition run_research :: "('c, 'r) world \<Rightarrow> string \<Rightarrow> string py" where
  "run_research W query =
     py_try
       (py_bind (create_research_crew W query) (\<lambda>crew.
        py_bind (Crew_kickoff W crew) (\<lambda>result.
        py_return (raw result))))
       (\<lambda>e. py_return (''Error: '' @ message e))"

section \<open>api.py\<close>

record query_request =
  input :: string

record query_response =
  result :: string

record status_response =
  status :: string

text \<open>\<^verbatim>\<open>HTTPException(status_code=..., detail=...)\<close>\<close>

record http_exception =
  status_code :: nat
  detail :: string

text \<open>The handler of \<^verbatim>\<open>POST /query\<close>; the function it imports from \<^verbatim>\<open>agents\<close> is its
  first argument.\<close>

definition query_endpoint ::
    "(string \<Rightarrow> string py) \<Rightarrow> query_request \<Rightarrow> state \<Rightarrow> (http_exception + query_response) \<times> state" where
  "query_endpoint research request s =
     (case research (input request) s of
        (Inr r, s') \<Rightarrow> (Inr \<lparr>result = r\<rparr>, s')
      | (Inl e, s') \<Rightarrow>
          (Inl \<lparr>status_code = 500, detail = ''Internal server error: '' @ message e\<rparr>, s'))"

text \<open>The handler of \<^verbatim>\<open>GET /status\<close>\<close>

definition status_endpoint :: status_response where
  "status_endpoint = \<lparr>status = ''ok''\<rparr>"

text \<open>
  The two routes of the FastAPI application, on requests the framework has already
  validated: what a handler returns is sent with status 200 as the JSON of its response
  model, and an \<^verbatim>\<open>HTTPException\<close> it raises is sent with its own status code and its
  detail.  The function \<^verbatim>\<open>api.py\<close> imports from \<^verbatim>\<open>agents\<close> is the first argument: the
  application that runs is \<open>app (run_research W)\<close>.
\<close>

datatype json = JString string | JObject "(string \<times> json) list"

record http_response =
  response_status :: nat
  response_body :: json

datatype request = POST_query query_request | GET_status

definition app :: "(string \<Rightarrow> string py) \<Rightarrow> request \<Rightarrow> state \<Rightarrow> http_response \<times> state" where
  "app research req s =
     (case req of
        POST_query body \<Rightarrow>
          (case query_endpoint research body s of
             (Inr response, s') \<Rightarrow>
               (\<lparr>response_status = 200,
                 response_body = JObject [(''result'', JString (result response))]\<rparr>, s')
           | (Inl error, s') \<Rightarrow>
               (\<lparr>response_status = status_code error,
                 response_body = JObject [(''detail'', JString (detail error))]\<rparr>, s'))
      | GET_status \<Rightarrow>
          (\<lparr>response_status = 200,
            response_body = JObject [(''status'', JString (status status_endpoint))]\<rparr>, s))"

section \<open>Reading a trace\<close>

fun is_task_event :: "event \<Rightarrow> bool" where
  "is_task_event (Getenv name) = False"
| "is_task_event (TaskStarted t ctx) = True"
| "is_task_event (TaskFinished t output) = True"

definition task_events :: "event list \<Rightarrow> event list" where
  "task_events tr = filter is_task_event tr"

fun getenv_names :: "event list \<Rightarrow> string list" where
  "getenv_names [] = []"
| "getenv_names (Getenv name # tr) = name # getenv_names tr"
| "getenv_names (TaskStarted t ctx # tr) = getenv_names tr"
| "getenv_names (TaskFinished t output # tr) = getenv_names tr"

text \<open>The events of a run of the chain \<open>t1, t2, t3\<close> that goes through, with the
  outputs \<open>o1, o2, o3\<close>.\<close>

definition chain_events :: "task \<Rightarrow> task \<Rightarrow> task \<Rightarrow> string \<Rightarrow> string \<Rightarrow> string \<Rightarrow> event list" where
  "chain_events t1 t2 t3 o1 o2 o3 =
     [TaskStarted t1 [], TaskFinished t1 o1,
      TaskStarted t2 [o1], TaskFinished t2 o2,
      TaskStarted t3 [o2], TaskFinished t3 o3]"

text \<open>The client \<^verbatim>\<open>get_llm_client\<close> builds from the key it read, and the crew
  \<^verbatim>\<open>create_research_crew\<close> hands back when no constructor raises.\<close>

definition gemini_client :: "string option \<Rightarrow> llm" where
  "gemini_client key =
     \<lparr>llm_model = ''gemini/gemini-2.5-flash'', llm_verbose = True,
      llm_temperature = 0.0, llm_api_key = key\<rparr>"

definition research_crew :: "llm \<Rightarrow> string \<Rightarrow> crew" where
  "research_crew client query =
     (let searcher = web_searcher LinkUpSearchTool client;
          analyst = research_analyst client;
          writer = technical_writer client;
          search = search_task query searcher LinkUpSearchTool;
          analysis = analysis_task analyst search;
          writing = writing_task writer analysis
      in \<lparr>crew_agents = [searcher, analyst, writer],
          crew_tasks = [search, analysis, writing],
          crew_verbose = True,
          crew_process = sequential\<rparr>)"

section \<open>The report format of the spec\<close>

text \<open>
  The program has no reader of reports.  What follows is the spec's description of a
  report (section 6), written down so that it can be stated of a text: a citation index
  is a bracketed numeral \<open>[n]\<close>; a section runs from its markdown header line to the
  next header line; an entry of the References list is a line \<open>n. ...\<close> of that
  section.
\<close>

definition spec_is_digit :: "char \<Rightarrow> bool" where
  "spec_is_digit c = (c \<in> set ''0123456789'')"

definition spec_decimal :: "string \<Rightarrow> nat" where
  "spec_decimal ds = foldl (\<lambda>n c. 10 * n + (of_char c - 48)) 0 ds"

fun spec_citation_indices :: "string \<Rightarrow> nat list" where
  "spec_citation_indices [] = []"
| "spec_citation_indices (c # cs) =
     (if c = CHR ''['' \<and> takeWhile spec_is_digit cs \<noteq> []
         \<and> take 1 (dropWhile spec_is_digit cs) = '']''
      then spec_decimal (takeWhile spec_is_digit cs) # spec_citation_indices cs
      else spec_citation_indices cs)"

fun spec_split_lines :: "string \<Rightarrow> string list" where
  "spec_split_lines [] = [[]]"
| "spec_split_lines (c # cs) =
     (if c = CHR 0x0A then [] # spec_split_lines cs
      else (case spec_split_lines cs of [] \<Rightarrow> [[c]] | l # ls \<Rightarrow> (c # l) # ls))"

definition spec_is_header :: "string \<Rightarrow> bool" where
  "spec_is_header l = (take 1 l = ''#'')"

definition spec_ends_with :: "string \<Rightarrow> string \<Rightarrow> bool" where
  "spec_ends_with name l = (drop (length l - length name) l = name)"

definition spec_section :: "string \<Rightarrow> string \<Rightarrow> string list" where
  "spec_section name text =
     takeWhile (\<lambda>l. \<not> spec_is_header l)
       (drop 1 (dropWhile (\<lambda>l. \<not> (spec_is_header l \<and> spec_ends_with name l)) (spec_split_lines text)))"

definition spec_entry_number :: "string \<Rightarrow> nat option" where
  "spec_entry_number l =
     (if takeWhile spec_is_digit l \<noteq> [] \<and> take 1 (dropWhile spec_is_digit l) = ''.''
      then Some (spec_decimal (takeWhile spec_is_digit l)) else None)"

definition spec_reference_numbers :: "string \<Rightarrow> nat list" where
  "spec_reference_numbers text = List.map_filter spec_entry_number (spec_section ''References'' text)"

definition spec_key_findings_citations :: "string \<Rightarrow> nat list" where
  "spec_key_findings_citations text =
     concat (map spec_citation_indices (spec_section ''Key Findings'' text))"

text \<open>No dangling citation number: every citation index of the text is the number of
  an entry of its References section.\<close>

definition spec_citations_resolve :: "string \<Rightarrow> bool" where
  "spec_citations_resolve text =
     list_all (\<lambda>n. n \<in> set (spec_reference_numbers text)) (spec_citation_indices text)"

section \<open>Example worlds\<close>

text \<open>A language model that follows a script: the searcher searches once and answers
  with what it observed, the analyst and the writer answer with fixed texts.\<close>

definition scripted_llm :: "string \<Rightarrow> string \<Rightarrow> agent \<Rightarrow> task \<Rightarrow> string list \<Rightarrow> agent_run" where
  "scripted_llm notes report a t ctx =
     (if agent_role a = ''Web Searcher''
      then UseTool ''solid-state batteries'' ''standard'' ''searchResults'' FinalAnswer
      else if agent_role a = ''Research Analyst'' then FinalAnswer notes
      else FinalAnswer report)"

definition failing_llm :: "agent \<Rightarrow> task \<Rightarrow> string list \<Rightarrow> agent_run" where
  "failing_llm a t ctx = LLMFailure (Exception ''quota exceeded'')"

text \<open>A world in which every constructor of the framework accepts its arguments; the
  search provider's client and the language model are the arguments.\<close>

definition example_world ::
    "(string option \<Rightarrow> exn + unit) \<Rightarrow> (agent \<Rightarrow> task \<Rightarrow> string list \<Rightarrow> agent_run)
      \<Rightarrow> (unit, string) world" where
  "example_world client_init model =
     \<lparr>LinkupClient_init = client_init,
      LinkupClient_search = (\<lambda>c query depth output_type. Inr (''results for '' @ query)),
      response_str = (\<lambda>r. r),
      LinkUpSearchTool_init = (\<lambda>_. None),
      LLM_init = (\<lambda>_. None),
      Agent_init = (\<lambda>_. None),
      Task_init = (\<lambda>_. None),
      Crew_init = (\<lambda>_. None),
      llm_run = model,
      unavailable_tool_observation = ''no such tool''\<rparr>"

definition provider_up :: "string option \<Rightarrow> exn + unit" where
  "provider_up key = Inr ()"

definition provider_down :: "string option \<Rightarrow> exn + unit" where
  "provider_down key = Inl (Exception ''connection refused'')"

definition start_state :: state where
  "start_state =
     \<lparr>environ = [''GEMINI_API_KEY'' \<mapsto> ''g-key'', ''LINKUP_API_KEY'' \<mapsto> ''l-key''],
      trace = []\<rparr>"


text \<open>A report whose Key Findings cite \<open>[1]\<close>, whose References list has the one entry
  \<open>1\<close>, and whose Thinking Process Summary cites \<open>[2]\<close>.\<close>

definition dangling_report :: string where
  "dangling_report =
     ''## Research Report\<newline>''
   @ ''### Executive Summary\<newline>Cells improve.\<newline>''
   @ ''### Key Findings\<newline>- Density doubled [1]\<newline>''
   @ ''### Conclusion\<newline>Promising.\<newline>''
   @ ''### References\<newline>1. Cell study, example.org, https://example.org/cells\<newline>''
   @ ''## Thinking Process Summary\<newline>The density claim rests on [2].\<newline>''"

text \<open>The sentence of the Technical Writer's goal about citation numbers, as the
  source has it (it stands twice in the goal).\<close>

definition key_findings_rule :: string where
  "key_findings_rule =
     ''2. Key Findings (optional): Concise insights with citations, formatted as numbered references (e.g., [1], [2], etc.), matching the numbers in the References section. Each citation should use a number that corresponds to a source in the References section.\<newline>''"

section \<open>Properties\<close>


lemma py_bind_construct:
  "py_bind (construct v x) f s = (case v x of None \<Rightarrow> f x s | Some e \<Rightarrow> (Inl e, s))"
  by (simp add: py_bind_def construct_def py_external_def split: option.splits)

lemma LinkUpSearchTool_run_eq:
  "LinkUpSearchTool_run W q d ot s =
     (Inr (case LinkupClient_init W (environ s ''LINKUP_API_KEY'') of
             Inl e \<Rightarrow> ''Error occurred while searching: '' @ message e
           | Inr c \<Rightarrow>
               (case LinkupClient_search W c q d ot of
                  Inl e \<Rightarrow> ''Error occurred while searching: '' @ message e
                | Inr r \<Rightarrow> response_str W r)),
      s\<lparr>trace := trace s @ [Getenv ''LINKUP_API_KEY'']\<rparr>)"
  by (simp add: LinkUpSearchTool_run_def py_try_def py_bind_def os_getenv_def py_external_def
      py_return_def split: sum.splits)

lemma get_llm_client_eq:
  "get_llm_client W s =
     (let l = \<lparr>llm_model = ''gemini/gemini-2.5-flash'', llm_verbose = True,
               llm_temperature = 0, llm_api_key = environ s ''GEMINI_API_KEY''\<rparr>
      in (case LLM_init W l of None \<Rightarrow> Inr l | Some e \<Rightarrow> Inl e),
      s\<lparr>trace := trace s @ [Getenv ''GEMINI_API_KEY'']\<rparr>)"
  by (simp add: get_llm_client_def py_bind_def os_getenv_def construct_def py_external_def Let_def)

lemma run_agent_trace:
  "\<exists>n r. run_agent a W tools s =
     (r, s\<lparr>trace := trace s @ replicate n (Getenv ''LINKUP_API_KEY'')\<rparr>)"
proof (induction a arbitrary: s)
  case (FinalAnswer x)
  show ?case by (rule exI[of _ 0]) (simp add: py_return_def)
next
  case (LLMFailure x)
  show ?case by (rule exI[of _ 0]) (simp add: py_raise_def)
next
  case (UseTool q d ot k)
  show ?case
  proof (cases "LinkUpSearchTool \<in> set tools")
    case True
    obtain obs where run: "LinkUpSearchTool_run W q d ot s =
        (Inr obs, s\<lparr>trace := trace s @ [Getenv ''LINKUP_API_KEY'']\<rparr>)"
      by (simp add: LinkUpSearchTool_run_eq)
    have "\<exists>n r. run_agent (k obs) W tools (s\<lparr>trace := trace s @ [Getenv ''LINKUP_API_KEY'']\<rparr>) =
        (r, (s\<lparr>trace := trace s @ [Getenv ''LINKUP_API_KEY'']\<rparr>)\<lparr>trace :=
           trace (s\<lparr>trace := trace s @ [Getenv ''LINKUP_API_KEY'']\<rparr>) @ replicate n (Getenv ''LINKUP_API_KEY'')\<rparr>)"
      by (rule UseTool.IH) simp
    then obtain n r where "run_agent (k obs) W tools (s\<lparr>trace := trace s @ [Getenv ''LINKUP_API_KEY'']\<rparr>) =
        (r, s\<lparr>trace := trace s @ replicate (Suc n) (Getenv ''LINKUP_API_KEY'')\<rparr>)"
      by (auto simp: replicate_append_same)
    with True run show ?thesis
      by (intro exI[of _ "Suc n"] exI[of _ r]) (simp add: py_bind_def)
  next
    case False
    have "\<exists>n r. run_agent (k (unavailable_tool_observation W)) W tools s =
        (r, s\<lparr>trace := trace s @ replicate n (Getenv ''LINKUP_API_KEY'')\<rparr>)"
      by (rule UseTool.IH) simp
    with False show ?thesis by simp
  qed
qed


lemma create_research_crew_Inr:
  assumes "create_research_crew W q s = (Inr c, s1)"
  shows "c = research_crew (gemini_client (environ s ''GEMINI_API_KEY'')) q
         \<and> s1 = s\<lparr>trace := trace s @ [Getenv ''GEMINI_API_KEY'']\<rparr>"
  using assms
  by (simp add: create_research_crew_def py_bind_construct py_bind_def get_llm_client_eq
      construct_def py_external_def research_crew_def gemini_client_def Let_def
      split: option.splits)


lemma create_research_crew_succeeds:
  assumes "LinkUpSearchTool_init W = (\<lambda>_. None)" "LLM_init W = (\<lambda>_. None)"
    "Agent_init W = (\<lambda>_. None)" "Task_init W = (\<lambda>_. None)" "Crew_init W = (\<lambda>_. None)"
  shows "create_research_crew W q s =
     (Inr (research_crew (gemini_client (environ s ''GEMINI_API_KEY'')) q),
      s\<lparr>trace := trace s @ [Getenv ''GEMINI_API_KEY'']\<rparr>)"
  using assms
  by (simp add: create_research_crew_def py_bind_construct py_bind_def get_llm_client_eq
      construct_def py_external_def research_crew_def gemini_client_def Let_def)

lemma task_events_append: "task_events (xs @ ys) = task_events xs @ task_events ys"
  by (simp add: task_events_def)

lemma getenv_names_append: "getenv_names (xs @ ys) = getenv_names xs @ getenv_names ys"
  by (induction xs rule: getenv_names.induct) simp_all

lemma getenv_names_replicate: "getenv_names (replicate n (Getenv x)) = replicate n x"
  by (induction n) simp_all

lemma task_events_replicate: "task_events (replicate n (Getenv x)) = []"
  by (simp add: task_events_def)

lemma execute_task_eq:
  "\<exists>n r. execute_task W t ctx s =
     (r, s\<lparr>trace := trace s @ TaskStarted t ctx # replicate n (Getenv ''LINKUP_API_KEY'')
              @ (case r of Inl e \<Rightarrow> [] | Inr output \<Rightarrow> [TaskFinished t output])\<rparr>)"
proof -
  obtain n r where run:
    "run_agent (llm_run W (task_agent t) t ctx) W (task_tools t @ agent_tools (task_agent t))
       (s\<lparr>trace := trace s @ [TaskStarted t ctx]\<rparr>) =
     (r, (s\<lparr>trace := trace s @ [TaskStarted t ctx]\<rparr>)\<lparr>trace :=
        trace (s\<lparr>trace := trace s @ [TaskStarted t ctx]\<rparr>) @ replicate n (Getenv ''LINKUP_API_KEY'')\<rparr>)"
    using run_agent_trace by blast
  show ?thesis
    by (intro exI[of _ n] exI[of _ r])
       (cases r; simp add: execute_task_def py_bind_def py_log_def py_return_def run)
qed


lemma state_trace_twice:
  "(s\<lparr>trace := trace s @ xs\<rparr>)\<lparr>trace := trace (s\<lparr>trace := trace s @ xs\<rparr>) @ ys\<rparr>
     = s\<lparr>trace := trace s @ xs @ ys\<rparr>"
  by simp

lemma chain_run:
  assumes c1: "task_context t1 = []" and c2: "task_context t2 = [t1]"
    and c3: "task_context t3 = [t2]" and ne: "t1 \<noteq> t2"
  shows "\<exists>r tr o1 o2 o3 n.
      execute_tasks [t1, t2, t3] W [] s = (r, s\<lparr>trace := trace s @ tr\<rparr>)
    \<and> prefix (task_events tr) (chain_events t1 t2 t3 o1 o2 o3)
    \<and> getenv_names tr = replicate n ''LINKUP_API_KEY''
    \<and> (case r of Inl e \<Rightarrow> True
        | Inr outputs \<Rightarrow> outputs = [(t1, o1), (t2, o2), (t3, o3)]
            \<and> task_events tr = chain_events t1 t2 t3 o1 o2 o3
            \<and> last (trace s @ tr) = TaskFinished t3 o3)"
proof -
  let ?G = "Getenv ''LINKUP_API_KEY''"
  have k1: "context_outputs [] t1 = []"
    by (simp add: context_outputs_def c1)
  have k2: "\<And>o1. context_outputs [(t1, o1)] t2 = [o1]"
    by (simp add: context_outputs_def c2)
  have k3: "\<And>o1 o2. context_outputs [(t1, o1), (t2, o2)] t3 = [o2]"
    using ne by (simp add: context_outputs_def c3)
  obtain n1 r1 where e1: "execute_task W t1 [] s =
      (r1, s\<lparr>trace := trace s @ TaskStarted t1 [] # replicate n1 ?G
              @ (case r1 of Inl e \<Rightarrow> [] | Inr output \<Rightarrow> [TaskFinished t1 output])\<rparr>)"
    using execute_task_eq by blast
  show ?thesis
  proof (cases r1)
    case (Inl e)
    show ?thesis
      apply (rule exI[of _ "Inl e"])
      apply (rule exI[of _ "TaskStarted t1 [] # replicate n1 ?G"])
      apply (rule exI[of _ "[]"], rule exI[of _ "[]"], rule exI[of _ "[]"], rule exI[of _ n1])
      using e1 Inl
      by (simp add: py_bind_def k1 task_events_def chain_events_def getenv_names_replicate)
  next
    case (Inr o1)
    define tr1 where "tr1 = TaskStarted t1 [] # replicate n1 ?G @ [TaskFinished t1 o1]"
    define s1 where "s1 = s\<lparr>trace := trace s @ tr1\<rparr>"
    have e1': "execute_task W t1 [] s = (Inr o1, s1)"
      using e1 Inr by (simp add: s1_def tr1_def)
    obtain n2 r2 where e2: "execute_task W t2 [o1] s1 =
        (r2, s1\<lparr>trace := trace s1 @ TaskStarted t2 [o1] # replicate n2 ?G
                @ (case r2 of Inl e \<Rightarrow> [] | Inr output \<Rightarrow> [TaskFinished t2 output])\<rparr>)"
      using execute_task_eq by blast
    show ?thesis
    proof (cases r2)
      case (Inl e)
      show ?thesis
        apply (rule exI[of _ "Inl e"])
        apply (rule exI[of _ "tr1 @ TaskStarted t2 [o1] # replicate n2 ?G"])
        apply (rule exI[of _ o1], rule exI[of _ "[]"], rule exI[of _ "[]"], rule exI[of _ "n1 + n2"])
        using e1' e2 Inl
        by (simp add: py_bind_def k1 k2 task_events_def chain_events_def getenv_names_replicate
            getenv_names_append s1_def tr1_def replicate_add)
    next
      case (Inr o2)
      define tr2 where "tr2 = TaskStarted t2 [o1] # replicate n2 ?G @ [TaskFinished t2 o2]"
      define s2 where "s2 = s\<lparr>trace := trace s @ tr1 @ tr2\<rparr>"
      have e2': "execute_task W t2 [o1] s1 = (Inr o2, s2)"
        using e2 Inr by (simp add: s1_def s2_def tr2_def)
      obtain n3 r3 where e3: "execute_task W t3 [o2] s2 =
          (r3, s2\<lparr>trace := trace s2 @ TaskStarted t3 [o2] # replicate n3 ?G
                  @ (case r3 of Inl e \<Rightarrow> [] | Inr output \<Rightarrow> [TaskFinished t3 output])\<rparr>)"
        using execute_task_eq by blast
      show ?thesis
      proof (cases r3)
        case (Inl e)
        show ?thesis
          apply (rule exI[of _ "Inl e"])
          apply (rule exI[of _ "tr1 @ tr2 @ TaskStarted t3 [o2] # replicate n3 ?G"])
          apply (rule exI[of _ o1], rule exI[of _ o2], rule exI[of _ "[]"], rule exI[of _ "n1 + n2 + n3"])
          using e1' e2' e3 Inl
          by (simp add: py_bind_def k1 k2 k3 task_events_def chain_events_def getenv_names_replicate
              getenv_names_append s2_def tr1_def tr2_def replicate_add)
      next
        case (Inr o3)
        show ?thesis
          apply (rule exI[of _ "Inr [(t1, o1), (t2, o2), (t3, o3)]"])
          apply (rule exI[of _ "tr1 @ tr2 @ TaskStarted t3 [o2] # replicate n3 ?G @ [TaskFinished t3 o3]"])
          apply (rule exI[of _ o1], rule exI[of _ o2], rule exI[of _ o3], rule exI[of _ "n1 + n2 + n3"])
          using e1' e2' e3 Inr
          by (simp add: py_bind_def py_return_def k1 k2 k3 task_events_def chain_events_def
              getenv_names_replicate getenv_names_append s2_def tr1_def tr2_def replicate_add)
      qed
    qed
  qed
qed



lemma research_crew_tasks:
  "\<exists>t1 t2 t3. crew_tasks (research_crew client q) = [t1, t2, t3]
     \<and> t1 = search_task q (web_searcher LinkUpSearchTool client) LinkUpSearchTool
     \<and> t2 = analysis_task (research_analyst client) t1
     \<and> t3 = writing_task (technical_writer client) t2
     \<and> task_context t1 = [] \<and> task_context t2 = [t1] \<and> task_context t3 = [t2] \<and> t1 \<noteq> t2"
  by (auto simp: research_crew_def Let_def search_task_def analysis_task_def writing_task_def)

lemma kickoff_research_crew:
  assumes "crew_tasks c = [t1, t2, t3]" "crew_process c = sequential"
    "task_context t1 = []" "task_context t2 = [t1]" "task_context t3 = [t2]" "t1 \<noteq> t2"
  shows "\<exists>r tr o1 o2 o3 n.
      Crew_kickoff W c s = (r, s\<lparr>trace := trace s @ tr\<rparr>)
    \<and> prefix (task_events tr) (chain_events t1 t2 t3 o1 o2 o3)
    \<and> getenv_names tr = replicate n ''LINKUP_API_KEY''
    \<and> (case r of Inl e \<Rightarrow> True
        | Inr out \<Rightarrow> raw out = o3
            \<and> task_events tr = chain_events t1 t2 t3 o1 o2 o3
            \<and> last (trace s @ tr) = TaskFinished t3 o3)"
proof -
  obtain r tr o1 o2 o3 n where run:
      "execute_tasks [t1, t2, t3] W [] s = (r, s\<lparr>trace := trace s @ tr\<rparr>)"
    and pre: "prefix (task_events tr) (chain_events t1 t2 t3 o1 o2 o3)"
    and env: "getenv_names tr = replicate n ''LINKUP_API_KEY''"
    and fin: "case r of Inl e \<Rightarrow> True
        | Inr outputs \<Rightarrow> outputs = [(t1, o1), (t2, o2), (t3, o3)]
            \<and> task_events tr = chain_events t1 t2 t3 o1 o2 o3
            \<and> last (trace s @ tr) = TaskFinished t3 o3"
    using chain_run[OF assms(3-6), of W s] by blast
  show ?thesis
  proof (cases r)
    case (Inl e)
    show ?thesis
      apply (rule exI[of _ "Inl e"], rule exI[of _ tr])
      apply (rule exI[of _ o1], rule exI[of _ o2], rule exI[of _ o3], rule exI[of _ n])
      using run pre env Inl by (simp add: Crew_kickoff_def assms(1,2) py_bind_def)
  next
    case (Inr outputs)
    show ?thesis
      apply (rule exI[of _ "Inr \<lparr>raw = o3\<rparr>"], rule exI[of _ tr])
      apply (rule exI[of _ o1], rule exI[of _ o2], rule exI[of _ o3], rule exI[of _ n])
      using run pre env fin Inr
      by (simp add: Crew_kickoff_def assms(1,2) py_bind_def py_return_def)
  qed
qed

lemma run_research_eq:
  "run_research W q s =
     (case create_research_crew W q s of
        (Inl e, s1) \<Rightarrow> (Inr (''Error: '' @ message e), s1)
      | (Inr c, s1) \<Rightarrow>
          (case Crew_kickoff W c s1 of
             (Inl e, s2) \<Rightarrow> (Inr (''Error: '' @ message e), s2)
           | (Inr out, s2) \<Rightarrow> (Inr (raw out), s2)))"
  by (simp add: run_research_def py_try_def py_bind_def py_return_def
      split: prod.splits sum.splits)

lemma run_research_total: "\<exists>text. fst (run_research W q s) = Inr text"
  by (simp add: run_research_eq split: prod.splits sum.splits)

lemma example_world_simps:
  "LinkupClient_init (example_world ci m) = ci"
  "LinkupClient_search (example_world ci m) = (\<lambda>c query depth output_type. Inr (''results for '' @ query))"
  "response_str (example_world ci m) = (\<lambda>r. r)"
  "LinkUpSearchTool_init (example_world ci m) = (\<lambda>_. None)"
  "LLM_init (example_world ci m) = (\<lambda>_. None)"
  "Agent_init (example_world ci m) = (\<lambda>_. None)"
  "Task_init (example_world ci m) = (\<lambda>_. None)"
  "Crew_init (example_world ci m) = (\<lambda>_. None)"
  "llm_run (example_world ci m) = m"
  "unavailable_tool_observation (example_world ci m) = ''no such tool''"
  by (simp_all add: example_world_def)

lemma example_create:
  "create_research_crew (example_world ci m) q s =
     (Inr (research_crew (gemini_client (environ s ''GEMINI_API_KEY'')) q),
      s\<lparr>trace := trace s @ [Getenv ''GEMINI_API_KEY'']\<rparr>)"
  by (rule create_research_crew_succeeds) (simp_all add: example_world_simps)

lemma scripted_kickoff:
  "\<exists>t1 t2 t3. crew_tasks (research_crew client q) = [t1, t2, t3] \<and>
     Crew_kickoff (example_world ci (scripted_llm notes report)) (research_crew client q) s =
     (Inr \<lparr>raw = report\<rparr>,
      s\<lparr>trace := trace s @
         [TaskStarted t1 [], Getenv ''LINKUP_API_KEY'',
          TaskFinished t1 (case ci (environ s ''LINKUP_API_KEY'') of
                             Inl e \<Rightarrow> ''Error occurred while searching: '' @ message e
                           | Inr c \<Rightarrow> ''results for solid-state batteries''),
          TaskStarted t2 [case ci (environ s ''LINKUP_API_KEY'') of
                             Inl e \<Rightarrow> ''Error occurred while searching: '' @ message e
                           | Inr c \<Rightarrow> ''results for solid-state batteries''],
          TaskFinished t2 notes,
          TaskStarted t3 [notes], TaskFinished t3 report]\<rparr>)"
  by (simp add: research_crew_def Let_def Crew_kickoff_def execute_task_def py_bind_def
      py_log_def py_return_def context_outputs_def example_world_simps scripted_llm_def
      search_task_def analysis_task_def writing_task_def web_searcher_def research_analyst_def
      technical_writer_def LinkUpSearchTool_run_eq cong: sum.case_cong)


lemma created_crew_shape:
  assumes "create_research_crew W q s = (Inr c, s1)"
  shows "\<exists>client t1 t2 t3. c = research_crew client q
     \<and> client = gemini_client (environ s ''GEMINI_API_KEY'')
     \<and> crew_tasks c = [t1, t2, t3] \<and> crew_process c = sequential
     \<and> t1 = search_task q (web_searcher LinkUpSearchTool client) LinkUpSearchTool
     \<and> t2 = analysis_task (research_analyst client) t1
     \<and> t3 = writing_task (technical_writer client) t2
     \<and> task_context t1 = [] \<and> task_context t2 = [t1] \<and> task_context t3 = [t2] \<and> t1 \<noteq> t2"
proof -
  have c: "c = research_crew (gemini_client (environ s ''GEMINI_API_KEY'')) q"
    using create_research_crew_Inr[OF assms] by simp
  have "crew_process c = sequential"
    by (simp add: c research_crew_def Let_def)
  with research_crew_tasks[of "gemini_client (environ s ''GEMINI_API_KEY'')" q] c
  show ?thesis by auto
qed

lemma run_research_success:
  assumes cr: "create_research_crew W q s = (Inr c, s1)"
    and ko: "Crew_kickoff W c s1 = (Inr out, s2)"
  shows "run_research W q s = (Inr (raw out), s2)
     \<and> last (trace s2) = TaskFinished (last (crew_tasks c)) (raw out)"
proof -
  obtain t1 t2 t3 where sh: "crew_tasks c = [t1, t2, t3]" "crew_process c = sequential"
      "task_context t1 = []" "task_context t2 = [t1]" "task_context t3 = [t2]" "t1 \<noteq> t2"
    using created_crew_shape[OF cr] by blast
  obtain r tr o1 o2 o3 where run: "Crew_kickoff W c s1 = (r, s1\<lparr>trace := trace s1 @ tr\<rparr>)"
    and fin: "case r of Inl e \<Rightarrow> True
        | Inr out \<Rightarrow> raw out = o3 \<and> task_events tr = chain_events t1 t2 t3 o1 o2 o3
            \<and> last (trace s1 @ tr) = TaskFinished t3 o3"
    using kickoff_research_crew[OF sh, of W s1] by blast
  from run ko have "r = Inr out" "s2 = s1\<lparr>trace := trace s1 @ tr\<rparr>" by simp_all
  with fin sh(1) have "last (trace s2) = TaskFinished (last (crew_tasks c)) (raw out)" by simp
  then show ?thesis by (simp add: run_research_eq cr ko)
qed

text \<open>
  C1.  For every world, every query (the empty string included) and every state,
  \<^verbatim>\<open>run_research\<close> returns a string and raises nothing.  The string is the raw output
  of the final task of the crew, when the crew was built and its run went through; or
  it is \<open>Error: \<close> followed by the message of the exception that building the crew
  or running its tasks raised.
\<close>

theorem run_research_never_raises:
  "\<exists>text. fst (run_research W query s) = Inr text \<and>
     ((\<exists>c s1 out s2. create_research_crew W query s = (Inr c, s1)
          \<and> Crew_kickoff W c s1 = (Inr out, s2) \<and> text = raw out
          \<and> last (trace s2) = TaskFinished (last (crew_tasks c)) text)
      \<or> (\<exists>e. text = ''Error: '' @ message e \<and>
            (fst (create_research_crew W query s) = Inl e
             \<or> (\<exists>c s1. create_research_crew W query s = (Inr c, s1)
                   \<and> fst (Crew_kickoff W c s1) = Inl e))))"
proof (cases "create_research_crew W query s")
  case (Pair r s1)
  show ?thesis
  proof (cases r)
    case (Inl e)
    with Pair show ?thesis by (simp add: run_research_eq)
  next
    case (Inr c)
    with Pair have cr: "create_research_crew W query s = (Inr c, s1)" by simp
    show ?thesis
    proof (cases "Crew_kickoff W c s1")
      case ko: (Pair r2 s2)
      show ?thesis
      proof (cases r2)
        case (Inl e)
        with ko cr show ?thesis by (simp add: run_research_eq)
      next
        case (Inr out)
        with ko have "Crew_kickoff W c s1 = (Inr out, s2)" by simp
        from run_research_success[OF cr this] cr this show ?thesis by simp
      qed
    qed
  qed
qed

text \<open>
  C2.  \<^verbatim>\<open>LinkUpSearchTool._run\<close> never raises, for any query, depth and output type.
  When the construction of the provider's client raises, or the search call does, it
  returns the error string made of the exception's message; when both go through it
  returns the response as text.  So an agent that asks for the tool always goes on,
  with the returned string as its observation: a failure of the provider does not end
  the run.
\<close>

theorem search_tool_fail_soft:
  "(\<exists>text. fst (LinkUpSearchTool_run W query depth output_type s) = Inr text)
   \<and> (\<forall>e. LinkupClient_init W (environ s ''LINKUP_API_KEY'') = Inl e \<longrightarrow>
         fst (LinkUpSearchTool_run W query depth output_type s)
           = Inr (''Error occurred while searching: '' @ message e))
   \<and> (\<forall>c e. LinkupClient_init W (environ s ''LINKUP_API_KEY'') = Inr c \<longrightarrow>
         LinkupClient_search W c query depth output_type = Inl e \<longrightarrow>
         fst (LinkUpSearchTool_run W query depth output_type s)
           = Inr (''Error occurred while searching: '' @ message e))
   \<and> (\<forall>c r. LinkupClient_init W (environ s ''LINKUP_API_KEY'') = Inr c \<longrightarrow>
         LinkupClient_search W c query depth output_type = Inr r \<longrightarrow>
         fst (LinkUpSearchTool_run W query depth output_type s) = Inr (response_str W r))
   \<and> (\<forall>tools continue. LinkUpSearchTool \<in> set tools \<longrightarrow>
         (\<exists>observation.
            fst (LinkUpSearchTool_run W query depth output_type s) = Inr observation
          \<and> run_agent (UseTool query depth output_type continue) W tools s
              = run_agent (continue observation) W tools
                  (snd (LinkUpSearchTool_run W query depth output_type s))))"
  by (simp add: LinkUpSearchTool_run_eq py_bind_def)

theorem search_tool_fail_soft_witness:
  "provider_down (environ start_state ''LINKUP_API_KEY'') = Inl (Exception ''connection refused'')
   \<and> fst (LinkUpSearchTool_run (example_world provider_down failing_llm)
            ''solid-state batteries'' ''standard'' ''searchResults'' start_state)
       = Inr ''Error occurred while searching: connection refused''
   \<and> provider_up (environ start_state ''LINKUP_API_KEY'') = Inr ()
   \<and> fst (LinkUpSearchTool_run (example_world provider_up failing_llm)
            ''solid-state batteries'' ''standard'' ''searchResults'' start_state)
       = Inr ''results for solid-state batteries''
   \<and> LinkUpSearchTool \<in> set [LinkUpSearchTool]
   \<and> fst (run_agent (UseTool ''solid-state batteries'' ''standard'' ''searchResults'' FinalAnswer)
            (example_world provider_down failing_llm) [LinkUpSearchTool] start_state)
       = Inr ''Error occurred while searching: connection refused''"
  using search_tool_fail_soft[of "example_world provider_down failing_llm"
      "''solid-state batteries''" "''standard''" "''searchResults''" start_state]
    search_tool_fail_soft[of "example_world provider_up failing_llm"
      "''solid-state batteries''" "''standard''" "''searchResults''" start_state]
  by (simp add: LinkUpSearchTool_run_eq py_bind_def example_world_simps provider_down_def
      provider_up_def py_return_def start_state_def)



text \<open>
  C3.  The crew \<^verbatim>\<open>create_research_crew\<close> builds has exactly three tasks, of the Web
  Searcher, the Research Analyst and the Technical Writer in this order, and the
  sequential process.  Its context graph is the chain: the search task has no context,
  the analysis task has the search task alone, the writing task has the analysis task
  alone.  In every run of the crew, from any state, the task events are a prefix of:
  search starts with no context and ends with \<open>o1\<close>; analysis starts with the context
  \<open>[o1]\<close> and ends with \<open>o2\<close>; writing starts with the context \<open>[o2]\<close> and ends with
  \<open>o3\<close>.  A run that goes through has all six events and hands back \<open>o3\<close>.
\<close>

theorem task_chain_order:
  assumes "create_research_crew W query s0 = (Inr c, s1)"
  shows "\<exists>t1 t2 t3. crew_tasks c = [t1, t2, t3] \<and> crew_process c = sequential
     \<and> agent_role (task_agent t1) = ''Web Searcher''
     \<and> agent_role (task_agent t2) = ''Research Analyst''
     \<and> agent_role (task_agent t3) = ''Technical Writer''
     \<and> task_context t1 = [] \<and> task_context t2 = [t1] \<and> task_context t3 = [t2]
     \<and> (\<forall>s. \<exists>o1 o2 o3.
           prefix (task_events (drop (length (trace s)) (trace (snd (Crew_kickoff W c s)))))
             (chain_events t1 t2 t3 o1 o2 o3)
         \<and> (\<forall>out. fst (Crew_kickoff W c s) = Inr out \<longrightarrow>
               task_events (drop (length (trace s)) (trace (snd (Crew_kickoff W c s))))
                 = chain_events t1 t2 t3 o1 o2 o3
             \<and> raw out = o3))"
proof -
  obtain client t1 t2 t3 where sh: "crew_tasks c = [t1, t2, t3]" "crew_process c = sequential"
      "task_context t1 = []" "task_context t2 = [t1]" "task_context t3 = [t2]" "t1 \<noteq> t2"
    and ts: "t1 = search_task query (web_searcher LinkUpSearchTool client) LinkUpSearchTool"
      "t2 = analysis_task (research_analyst client) t1"
      "t3 = writing_task (technical_writer client) t2"
    using created_crew_shape[OF assms] by blast
  have roles: "agent_role (task_agent t1) = ''Web Searcher''"
      "agent_role (task_agent t2) = ''Research Analyst''"
      "agent_role (task_agent t3) = ''Technical Writer''"
    by (simp_all add: ts search_task_def analysis_task_def writing_task_def web_searcher_def
        research_analyst_def technical_writer_def)
  have run: "\<exists>o1 o2 o3.
           prefix (task_events (drop (length (trace s)) (trace (snd (Crew_kickoff W c s)))))
             (chain_events t1 t2 t3 o1 o2 o3)
         \<and> (\<forall>out. fst (Crew_kickoff W c s) = Inr out \<longrightarrow>
               task_events (drop (length (trace s)) (trace (snd (Crew_kickoff W c s))))
                 = chain_events t1 t2 t3 o1 o2 o3
             \<and> raw out = o3)" for s
  proof -
    obtain r tr o1 o2 o3 where ko: "Crew_kickoff W c s = (r, s\<lparr>trace := trace s @ tr\<rparr>)"
      and pre: "prefix (task_events tr) (chain_events t1 t2 t3 o1 o2 o3)"
      and fin: "case r of Inl e \<Rightarrow> True
          | Inr out \<Rightarrow> raw out = o3 \<and> task_events tr = chain_events t1 t2 t3 o1 o2 o3
              \<and> last (trace s @ tr) = TaskFinished t3 o3"
      using kickoff_research_crew[OF sh, of W s] by blast
    show ?thesis
      apply (rule exI[of _ o1], rule exI[of _ o2], rule exI[of _ o3])
      using pre fin by (auto simp: ko)
  qed
  from sh roles run show ?thesis by blast
qed

theorem task_chain_order_witness:
  "\<exists>c s1 t1 t2 t3.
     create_research_crew (example_world provider_up (scripted_llm ''notes'' ''report''))
       ''batteries'' start_state = (Inr c, s1)
   \<and> crew_tasks c = [t1, t2, t3] \<and> task_context t2 = [t1] \<and> task_context t3 = [t2]
   \<and> fst (Crew_kickoff (example_world provider_up (scripted_llm ''notes'' ''report'')) c s1)
       = Inr \<lparr>raw = ''report''\<rparr>
   \<and> task_events (drop (length (trace s1))
        (trace (snd (Crew_kickoff (example_world provider_up (scripted_llm ''notes'' ''report'')) c s1))))
       = chain_events t1 t2 t3 ''results for solid-state batteries'' ''notes'' ''report''"
proof -
  let ?W = "example_world provider_up (scripted_llm ''notes'' ''report'')"
  let ?c = "research_crew (gemini_client (environ start_state ''GEMINI_API_KEY'')) ''batteries''"
  let ?s1 = "start_state\<lparr>trace := trace start_state @ [Getenv ''GEMINI_API_KEY'']\<rparr>"
  have cr: "create_research_crew ?W ''batteries'' start_state = (Inr ?c, ?s1)"
    by (rule example_create)
  from task_chain_order[OF cr] obtain t1 t2 t3 where
    sh: "crew_tasks ?c = [t1, t2, t3]" "task_context t2 = [t1]" "task_context t3 = [t2]"
    by blast
  from scripted_kickoff[of "gemini_client (environ start_state ''GEMINI_API_KEY'')" "''batteries''"
      provider_up "''notes''" "''report''" ?s1] sh(1)
  have ko: "fst (Crew_kickoff ?W ?c ?s1) = Inr \<lparr>raw = ''report''\<rparr>"
    and ev: "task_events (drop (length (trace ?s1)) (trace (snd (Crew_kickoff ?W ?c ?s1))))
       = chain_events t1 t2 t3 ''results for solid-state batteries'' ''notes'' ''report''"
    by (auto simp: task_events_def chain_events_def provider_up_def)
  from cr sh ko ev show ?thesis by blast
qed



lemma scripted_run:
  "\<exists>t1 t2 t3. run_research (example_world ci (scripted_llm notes report)) q s =
     (Inr report,
      s\<lparr>trace := trace s @
         [Getenv ''GEMINI_API_KEY'',
          TaskStarted t1 [], Getenv ''LINKUP_API_KEY'',
          TaskFinished t1 (case ci (environ s ''LINKUP_API_KEY'') of
                             Inl e \<Rightarrow> ''Error occurred while searching: '' @ message e
                           | Inr c \<Rightarrow> ''results for solid-state batteries''),
          TaskStarted t2 [case ci (environ s ''LINKUP_API_KEY'') of
                             Inl e \<Rightarrow> ''Error occurred while searching: '' @ message e
                           | Inr c \<Rightarrow> ''results for solid-state batteries''],
          TaskFinished t2 notes,
          TaskStarted t3 [notes], TaskFinished t3 report]\<rparr>)"
proof -
  let ?s1 = "s\<lparr>trace := trace s @ [Getenv ''GEMINI_API_KEY'']\<rparr>"
  from scripted_kickoff[of "gemini_client (environ s ''GEMINI_API_KEY'')" q ci "notes" report ?s1]
  obtain t1 t2 t3 where ko:
    "Crew_kickoff (example_world ci (scripted_llm notes report))
       (research_crew (gemini_client (environ s ''GEMINI_API_KEY'')) q) ?s1 =
     (Inr \<lparr>raw = report\<rparr>,
      ?s1\<lparr>trace := trace ?s1 @
         [TaskStarted t1 [], Getenv ''LINKUP_API_KEY'',
          TaskFinished t1 (case ci (environ ?s1 ''LINKUP_API_KEY'') of
                             Inl e \<Rightarrow> ''Error occurred while searching: '' @ message e
                           | Inr c \<Rightarrow> ''results for solid-state batteries''),
          TaskStarted t2 [case ci (environ ?s1 ''LINKUP_API_KEY'') of
                             Inl e \<Rightarrow> ''Error occurred while searching: '' @ message e
                           | Inr c \<Rightarrow> ''results for solid-state batteries''],
          TaskFinished t2 notes,
          TaskStarted t3 [notes], TaskFinished t3 report]\<rparr>)"
    by blast
  show ?thesis
    by (intro exI[of _ t1] exI[of _ t2] exI[of _ t3]) (simp add: run_research_eq example_create ko)
qed



lemma infix_of_fifth:
  "\<exists>pre post. a @ b @ c @ d @ p @ rest = pre @ p @ post"
  by (rule exI[of _ "a @ b @ c @ d"], rule exI[of _ rest]) simp

text \<open>
  C5, amended.  The program applies no check to the report: whatever text the Technical
  Writer's task answers with, \<^verbatim>\<open>run_research\<close> returns that very text: in every
  world the string of a run that goes through is the output the last task finished
  with, and every text is the answer of some writer.  That citation numbers match the
  numbers of the References section is an instruction in the text of the Technical
  Writer's goal.
\<close>

theorem report_returned_unchecked:
  "(\<forall>c s1 out s2. create_research_crew W query s = (Inr c, s1) \<longrightarrow>
        Crew_kickoff W c s1 = (Inr out, s2) \<longrightarrow>
        fst (run_research W query s) = Inr (raw out)
      \<and> last (trace s2) = TaskFinished (last (crew_tasks c)) (raw out))
   \<and> (\<forall>report. fst (run_research (example_world client_init (scripted_llm analysis report))
                       query s) = Inr report)
   \<and> (\<exists>pre post. technical_writer_goal = pre @ key_findings_rule @ post)"
proof -
  have "\<exists>pre post. technical_writer_goal = pre @ key_findings_rule @ post"
    unfolding technical_writer_goal_def key_findings_rule_def by (rule infix_of_fifth)
  moreover have "fst (run_research (example_world client_init (scripted_llm analysis report)) query s)
      = Inr report" for report
    using scripted_run[of client_init analysis report query s] by auto
  moreover have "fst (run_research W query s) = Inr (raw out)
      \<and> last (trace s2) = TaskFinished (last (crew_tasks c)) (raw out)"
    if "create_research_crew W query s = (Inr c, s1)" "Crew_kickoff W c s1 = (Inr out, s2)"
    for c s1 out s2
    using run_research_success[OF that] by simp
  ultimately show ?thesis by blast
qed

theorem report_returned_unchecked_witness:
  "\<exists>c s1 s2.
     create_research_crew (example_world provider_up (scripted_llm ''notes'' dangling_report))
        ''batteries'' start_state = (Inr c, s1)
   \<and> Crew_kickoff (example_world provider_up (scripted_llm ''notes'' dangling_report)) c s1
        = (Inr \<lparr>raw = dangling_report\<rparr>, s2)
   \<and> fst (run_research (example_world provider_up (scripted_llm ''notes'' dangling_report))
        ''batteries'' start_state) = Inr dangling_report
   \<and> last (trace s2) = TaskFinished (last (crew_tasks c)) dangling_report"
proof -
  let ?W = "example_world provider_up (scripted_llm ''notes'' dangling_report)"
  let ?k = "gemini_client (environ start_state ''GEMINI_API_KEY'')"
  let ?s1 = "start_state\<lparr>trace := trace start_state @ [Getenv ''GEMINI_API_KEY'']\<rparr>"
  have cr: "create_research_crew ?W ''batteries'' start_state = (Inr (research_crew ?k ''batteries''), ?s1)"
    by (rule example_create)
  obtain s2 where ko: "Crew_kickoff ?W (research_crew ?k ''batteries'') ?s1
      = (Inr \<lparr>raw = dangling_report\<rparr>, s2)"
    using scripted_kickoff[of ?k "''batteries''" provider_up "''notes''" dangling_report ?s1] by blast
  from report_returned_unchecked[of ?W "''batteries''" start_state] cr ko
  have "fst (run_research ?W ''batteries'' start_state) = Inr dangling_report
      \<and> last (trace s2) = TaskFinished (last (crew_tasks (research_crew ?k ''batteries''))) dangling_report"
    by fastforce
  with cr ko show ?thesis by blast
qed

text \<open>
  C5 as stated fails.  The report below has a References section of one entry and Key
  Findings that cite \<open>[1]\<close> only, and it cites \<open>[2]\<close> in its Thinking Process Summary:
  a citation index that no entry of the References section has.  \<^verbatim>\<open>run_research\<close>
  returns it as it is.
\<close>

theorem citations_enforced_counterexample:
  "fst (run_research (example_world provider_up (scripted_llm ''notes'' dangling_report))
          ''batteries'' start_state) = Inr dangling_report
   \<and> spec_reference_numbers dangling_report = [1]
   \<and> spec_key_findings_citations dangling_report = [1]
   \<and> spec_citation_indices dangling_report = [1, 2]
   \<and> \<not> spec_citations_resolve dangling_report"
proof -
  have "fst (run_research (example_world provider_up (scripted_llm ''notes'' dangling_report))
          ''batteries'' start_state) = Inr dangling_report"
    using scripted_run[of provider_up "''notes''" dangling_report "''batteries''" start_state]
    by auto
  moreover have "spec_reference_numbers dangling_report = [1]" by code_simp
  moreover have "spec_key_findings_citations dangling_report = [1]" by code_simp
  moreover have "spec_citation_indices dangling_report = [1, 2]" by code_simp
  moreover have "\<not> spec_citations_resolve dangling_report" by code_simp
  ultimately show ?thesis by simp
qed

text \<open>
  C6.  The three agents of every crew that is built, in the order of the crew's list
  and each bound to the task of its position: the Web Searcher has the search tool as
  its one tool and may delegate; the Research Analyst has no tool and may delegate; the
  Technical Writer has no tool and may not delegate.
\<close>

theorem agent_role_configuration:
  assumes "create_research_crew W query s = (Inr c, s1)"
  shows "\<exists>searcher analyst writer.
       crew_agents c = [searcher, analyst, writer]
     \<and> map task_agent (crew_tasks c) = [searcher, analyst, writer]
     \<and> agent_role searcher = ''Web Searcher''
     \<and> agent_tools searcher = [LinkUpSearchTool] \<and> allow_delegation searcher
     \<and> agent_role analyst = ''Research Analyst''
     \<and> agent_tools analyst = [] \<and> allow_delegation analyst
     \<and> agent_role writer = ''Technical Writer''
     \<and> agent_tools writer = [] \<and> \<not> allow_delegation writer
     \<and> map task_tools (crew_tasks c) = [[LinkUpSearchTool], [], []]"
proof -
  have c: "c = research_crew (gemini_client (environ s ''GEMINI_API_KEY'')) query"
    using create_research_crew_Inr[OF assms] by simp
  show ?thesis
    by (simp add: c research_crew_def Let_def web_searcher_def research_analyst_def
        technical_writer_def search_task_def analysis_task_def writing_task_def)
qed

theorem agent_role_configuration_witness:
  "\<exists>c s1 searcher analyst writer.
     create_research_crew (example_world provider_up failing_llm) ''batteries'' start_state
       = (Inr c, s1)
   \<and> crew_agents c = [searcher, analyst, writer]
   \<and> agent_tools searcher = [LinkUpSearchTool] \<and> allow_delegation searcher
   \<and> agent_tools analyst = [] \<and> allow_delegation analyst
   \<and> agent_tools writer = [] \<and> \<not> allow_delegation writer"
proof -
  have cr: "create_research_crew (example_world provider_up failing_llm) ''batteries'' start_state
     = (Inr (research_crew (gemini_client (environ start_state ''GEMINI_API_KEY'')) ''batteries''),
        start_state\<lparr>trace := trace start_state @ [Getenv ''GEMINI_API_KEY'']\<rparr>)"
    by (rule example_create)
  from agent_role_configuration[OF cr] cr show ?thesis by blast
qed

text \<open>
  C7.  The description of the first task is the source's text with the query between
  \<open>about: \<close> and the full stop.  The query stands nowhere else: the crews built for
  two queries, in the same world and state, have the same agents, the same
  descriptions of the second and third task, the same expected outputs, task agents and
  task tools, and the same settings, and the contexts are the references to the tasks
  before.  When the run of the crew goes through, \<^verbatim>\<open>run_research\<close> returns its
  \<^verbatim>\<open>raw\<close>, which is the output the last task of the crew finished with.
\<close>

theorem query_only_in_search_description:
  assumes "create_research_crew W query s = (Inr c, s1)"
    and "create_research_crew W query' s = (Inr c', s1')"
  shows "map description (crew_tasks c) =
       [''Conduct an exhaustive web search for authoritative, up-to-date information about: ''
          @ query @ ''. ''
        @ ''Collect facts, data, and potential visuals (charts, diagrams, images) relevant to the research query. ''
        @ ''Ensure all findings are accompanied by accurate source links (urls) suitable for citation in a formal research report.'',
        analysis_task_description, writing_task_description]
     \<and> map description (tl (crew_tasks c')) = map description (tl (crew_tasks c))
     \<and> map expected_output (crew_tasks c') = map expected_output (crew_tasks c)
     \<and> map task_agent (crew_tasks c') = map task_agent (crew_tasks c)
     \<and> map task_tools (crew_tasks c') = map task_tools (crew_tasks c)
     \<and> crew_agents c' = crew_agents c
     \<and> crew_verbose c' = crew_verbose c \<and> crew_process c' = crew_process c
     \<and> (\<exists>t1 t2 t3. crew_tasks c = [t1, t2, t3]
           \<and> task_context t1 = [] \<and> task_context t2 = [t1] \<and> task_context t3 = [t2])
     \<and> (\<forall>out s2. Crew_kickoff W c s1 = (Inr out, s2) \<longrightarrow>
           run_research W query s = (Inr (raw out), s2)
         \<and> last (trace s2) = TaskFinished (last (crew_tasks c)) (raw out))"
proof -
  have c: "c = research_crew (gemini_client (environ s ''GEMINI_API_KEY'')) query"
    using create_research_crew_Inr[OF assms(1)] by simp
  have c': "c' = research_crew (gemini_client (environ s ''GEMINI_API_KEY'')) query'"
    using create_research_crew_Inr[OF assms(2)] by simp
  have "\<forall>out s2. Crew_kickoff W c s1 = (Inr out, s2) \<longrightarrow>
           run_research W query s = (Inr (raw out), s2)
         \<and> last (trace s2) = TaskFinished (last (crew_tasks c)) (raw out)"
    using run_research_success[OF assms(1)] by blast
  then show ?thesis
    by (simp add: c c' research_crew_def Let_def search_task_def analysis_task_def
        writing_task_def)
qed

theorem query_only_in_search_description_witness:
  "\<exists>c s1 c' s1' s2.
     create_research_crew (example_world provider_up (scripted_llm ''notes'' ''report''))
        ''batteries'' start_state = (Inr c, s1)
   \<and> create_research_crew (example_world provider_up (scripted_llm ''notes'' ''report''))
        ''fusion'' start_state = (Inr c', s1')
   \<and> crew_agents c' = crew_agents c
   \<and> map description (tl (crew_tasks c')) = map description (tl (crew_tasks c))
   \<and> Crew_kickoff (example_world provider_up (scripted_llm ''notes'' ''report'')) c s1
        = (Inr \<lparr>raw = ''report''\<rparr>, s2)
   \<and> run_research (example_world provider_up (scripted_llm ''notes'' ''report''))
        ''batteries'' start_state = (Inr ''report'', s2)
   \<and> last (trace s2) = TaskFinished (last (crew_tasks c)) ''report''"
proof -
  let ?W = "example_world provider_up (scripted_llm ''notes'' ''report'')"
  let ?k = "gemini_client (environ start_state ''GEMINI_API_KEY'')"
  let ?s1 = "start_state\<lparr>trace := trace start_state @ [Getenv ''GEMINI_API_KEY'']\<rparr>"
  have cr: "create_research_crew ?W ''batteries'' start_state = (Inr (research_crew ?k ''batteries''), ?s1)"
    by (rule example_create)
  have cr': "create_research_crew ?W ''fusion'' start_state = (Inr (research_crew ?k ''fusion''), ?s1)"
    by (rule example_create)
  obtain s2 where ko: "Crew_kickoff ?W (research_crew ?k ''batteries'') ?s1 = (Inr \<lparr>raw = ''report''\<rparr>, s2)"
    using scripted_kickoff[of ?k "''batteries''" provider_up "''notes''" "''report''" ?s1] by blast
  from query_only_in_search_description[OF cr cr'] cr cr' ko show ?thesis
    by (intro exI[of _ "research_crew ?k ''batteries''"] exI[of _ ?s1]
        exI[of _ "research_crew ?k ''fusion''"] exI[of _ ?s1] exI[of _ s2]) simp
qed

text \<open>
  C8.  \<^verbatim>\<open>GET /status\<close> is answered with status 200 and the body
  \<open>{"status": "ok"}\<close>, in every state and whatever the query service behind
  \<^verbatim>\<open>POST /query\<close> does; the state is left as it was.
\<close>

theorem status_always_ok:
  "app research GET_status s =
     (\<lparr>response_status = 200, response_body = JObject [(''status'', JString ''ok'')]\<rparr>, s)"
  by (simp add: app_def status_endpoint_def)

text \<open>
  C9.  If the research function returns a string for every input and never raises, the
  handler of \<^verbatim>\<open>POST /query\<close> never takes its exception branch: for every request it
  returns the response holding that string, and the application answers with status 200
  and the body \<open>{"result": <string>}\<close>, also when the string is an error message.
\<close>

theorem query_endpoint_never_500:
  assumes "\<forall>q s. \<exists>text. fst (research q s) = Inr text"
  shows "\<exists>text. fst (research (input request) s) = Inr text
     \<and> fst (query_endpoint research request s) = Inr \<lparr>result = text\<rparr>
     \<and> fst (app research (POST_query request) s) =
         \<lparr>response_status = 200, response_body = JObject [(''result'', JString text)]\<rparr>"
proof -
  from assms obtain answer where "fst (research (input request) s) = Inr answer" by blast
  then show ?thesis
    by (cases "research (input request) s") (simp add: query_endpoint_def app_def)
qed

lemma failing_run:
  "run_research (example_world client_init failing_llm) q s =
     (Inr ''Error: quota exceeded'',
      s\<lparr>trace := trace s @ [Getenv ''GEMINI_API_KEY'',
          TaskStarted (search_task q
            (web_searcher LinkUpSearchTool (gemini_client (environ s ''GEMINI_API_KEY'')))
            LinkUpSearchTool) []]\<rparr>)"
  by (simp add: run_research_eq example_create research_crew_def Let_def Crew_kickoff_def
      execute_task_def py_bind_def py_log_def py_raise_def context_outputs_def
      example_world_simps failing_llm_def search_task_def)

theorem query_endpoint_never_500_witness:
  "(\<forall>q s. \<exists>text. fst (run_research (example_world provider_up failing_llm) q s) = Inr text)
   \<and> fst (run_research (example_world provider_up failing_llm) [] start_state)
       = Inr ''Error: quota exceeded''
   \<and> fst (app (run_research (example_world provider_up failing_llm))
            (POST_query \<lparr>input = []\<rparr>) start_state) =
         \<lparr>response_status = 200,
          response_body = JObject [(''result'', JString ''Error: quota exceeded'')]\<rparr>"
proof -
  have total: "\<forall>q s. \<exists>text. fst (run_research (example_world provider_up failing_llm) q s) = Inr text"
    using run_research_total by blast
  have r: "fst (run_research (example_world provider_up failing_llm) [] start_state)
       = Inr ''Error: quota exceeded''"
    by (simp add: failing_run)
  from query_endpoint_never_500[OF total, of "\<lparr>input = []\<rparr>" start_state] r total
  show ?thesis by auto
qed


end
